theory Spec2Isabelle
  imports Main
begin

section \<open>The to-do collection of the web front end\<close>

text \<open>
  A shallow embedding of \<^verbatim>\<open>src/core/ToDoItem.ts\<close>, \<^verbatim>\<open>src/core/utils.ts\<close>,
  \<^verbatim>\<open>src/core/interfaces.ts\<close> and \<^verbatim>\<open>src/core/ToDoItems.ts\<close>.

  \<^item> \<open>Todo\<close> objects are mutable and shared by reference (\<open>processItems\<close> writes
    \<open>handleTrigger\<close> into the objects it is handed), so they live in a store: a total
    map from addresses to \<open>Todo\<close> records. TypeScript references never dangle, hence
    the map is total. Arrays of todos are lists of addresses.
  \<^item> \<open>ToDoItems\<close> objects live in a second store. The only value ever written into
    \<open>handleTrigger\<close> is \<open>this.callbackHandle\<close>, an arrow function that closes over
    its collection; it is therefore represented by the address of that collection.
  \<^item> A settled promise is a sum: \<open>Inl\<close> the rejection reason, \<open>Inr\<close> the value.
    Every \<open>async\<close> method is run to completion; interleavings of several pending
    operations are outside this model.
  \<^item> The remote collaborator is a parameter: each capability is a function of the todo
    store and of the arguments of the call, and yields a settled promise. Capabilities
    do not write to the store.
  \<^item> \<open>number\<close> is \<open>int\<close>, \<open>Date\<close> is a timestamp.
  \<^item> The world carries a trace of the capability calls made, in order. The trace only
    observes the calls; nothing reads it.
\<close>

subsection \<open>Data\<close>

type_synonym ref = nat
type_synonym cref = nat
type_synonym Date = int

datatype reason = Error string | TypeError

datatype Operation =
    Complete Date
  | Create Date
  | Delete Date
  | Reassign int Date

record Todo =
  id' :: int
  name :: string
  dueDate :: "Date option"
  assignedBy :: int
  assignedTo :: int
  description :: "string option"
  dateAssigned :: Date
  dateFinished :: "Date option"
  finished :: bool
  handleTrigger :: "cref option"

record EmptyResponse =
  code :: int
  message :: "string option"

record ToDoResponse =
  errorMessage :: "string option"
  toDos :: "ref list option"

type_synonym heap = "ref \<Rightarrow> Todo"

record HasJWT =
  jwt :: string

record ItemGetter = HasJWT +
  getItems :: "heap \<Rightarrow> string \<Rightarrow> int \<Rightarrow> Date \<Rightarrow> reason + ToDoResponse"

record FullItemProcess = ItemGetter +
  completeItem :: "heap \<Rightarrow> string \<Rightarrow> int \<Rightarrow> int \<Rightarrow> Date \<Rightarrow> reason + ToDoResponse"
  deleteItem :: "heap \<Rightarrow> string \<Rightarrow> int \<Rightarrow> int \<Rightarrow> Date \<Rightarrow> reason + ToDoResponse"
  createItem :: "heap \<Rightarrow> string \<Rightarrow> int \<Rightarrow> ref \<Rightarrow> Date \<Rightarrow> reason + ToDoResponse"
  reassignItem :: "heap \<Rightarrow> string \<Rightarrow> int \<Rightarrow> int \<Rightarrow> int \<Rightarrow> Date \<Rightarrow> reason + ToDoResponse"

record ToDoItems =
  userId :: int
  jwt :: string
  pendingItems :: "ref list"
  doneItems :: "ref list"
  interfaceHandle :: FullItemProcess

datatype call =
    GetItemsCall string int Date
  | CompleteItemCall string int int Date
  | DeleteItemCall string int int Date
  | CreateItemCall string int ref Date
  | ReassignItemCall string int int int Date

record world =
  todos :: heap
  colls :: "cref \<Rightarrow> ToDoItems"
  trace :: "call list"

subsection \<open>Constructors\<close>

text \<open>\<open>new Todo(params)\<close>; \<open>now\<close> is the value of \<open>new Date()\<close>.\<close>

definition Todo_new ::
  "int \<Rightarrow> string \<Rightarrow> int \<Rightarrow> int \<Rightarrow> Date option \<Rightarrow> Date option \<Rightarrow> string option
     \<Rightarrow> Date option \<Rightarrow> bool option \<Rightarrow> Date \<Rightarrow> Todo" where
  "Todo_new p_id p_name p_assignedBy p_assignedTo p_dateAssigned p_dueDate p_description
       p_dateFinished p_finished now =
     \<lparr> id' = p_id,
       name = p_name,
       dueDate = p_dueDate,
       assignedBy = p_assignedBy,
       assignedTo = p_assignedTo,
       description = p_description,
       dateAssigned = (case p_dateAssigned of Some d \<Rightarrow> d | None \<Rightarrow> now),
       dateFinished = p_dateFinished,
       finished = (case p_finished of Some b \<Rightarrow> b | None \<Rightarrow> False),
       handleTrigger = None \<rparr>"

text \<open>\<open>new ToDoItems(id, jwt, interfaceHandle)\<close>.\<close>

definition ToDoItems_new :: "int \<Rightarrow> string \<Rightarrow> FullItemProcess \<Rightarrow> ToDoItems" where
  "ToDoItems_new p_id p_jwt p_interfaceHandle =
     \<lparr> userId = p_id,
       jwt = p_jwt,
       pendingItems = [],
       doneItems = [],
       interfaceHandle = p_interfaceHandle \<rparr>"

subsection \<open>ToDoItems\<close>

text \<open>
  \<open>handleResponse\<close>: an array is truthy even when empty, \<open>null\<close> is not.
  \<open>new Error(m)\<close> converts \<open>m\<close> to a string, so \<open>null\<close> becomes \<open>"null"\<close>.
\<close>

definition handleResponse :: "ToDoResponse \<Rightarrow> reason + ref list" where
  "handleResponse response =
     (case toDos response of
        Some items \<Rightarrow> Inr items
      | None \<Rightarrow> Inl (Error (case errorMessage response of Some m \<Rightarrow> m | None \<Rightarrow> ''null'')))"

text \<open>
  The four wrappers around the capabilities. They share their names with the
  capabilities, hence the prefix.
\<close>

definition ToDoItems_completeItem ::
  "cref \<Rightarrow> ref \<Rightarrow> Date \<Rightarrow> world \<Rightarrow> (reason + ref list) \<times> world" where
  "ToDoItems_completeItem self item cutOffDate w =
     (let this = colls w self;
          w1 = w\<lparr>trace := trace w @
                 [CompleteItemCall (ToDoItems.jwt this) (userId this) (id' (todos w item)) cutOffDate]\<rparr>
      in (case completeItem (interfaceHandle this) (todos w)
                 (ToDoItems.jwt this) (userId this) (id' (todos w item)) cutOffDate of
            Inl e \<Rightarrow> (Inl e, w1)
          | Inr response \<Rightarrow> (handleResponse response, w1)))"

definition ToDoItems_deleteItem ::
  "cref \<Rightarrow> ref \<Rightarrow> Date \<Rightarrow> world \<Rightarrow> (reason + ref list) \<times> world" where
  "ToDoItems_deleteItem self item cutOffDate w =
     (let this = colls w self;
          w1 = w\<lparr>trace := trace w @
                 [DeleteItemCall (ToDoItems.jwt this) (userId this) (id' (todos w item)) cutOffDate]\<rparr>
      in (case deleteItem (interfaceHandle this) (todos w)
                 (ToDoItems.jwt this) (userId this) (id' (todos w item)) cutOffDate of
            Inl e \<Rightarrow> (Inl e, w1)
          | Inr response \<Rightarrow> (handleResponse response, w1)))"

definition ToDoItems_createItem ::
  "cref \<Rightarrow> ref \<Rightarrow> Date \<Rightarrow> world \<Rightarrow> (reason + ref list) \<times> world" where
  "ToDoItems_createItem self item cutOffDate w =
     (let this = colls w self;
          w1 = w\<lparr>trace := trace w @
                 [CreateItemCall (ToDoItems.jwt this) (userId this) item cutOffDate]\<rparr>
      in (case createItem (interfaceHandle this) (todos w)
                 (ToDoItems.jwt this) (userId this) item cutOffDate of
            Inl e \<Rightarrow> (Inl e, w1)
          | Inr response \<Rightarrow> (handleResponse response, w1)))"

definition ToDoItems_reassignItem ::
  "cref \<Rightarrow> ref \<Rightarrow> int \<Rightarrow> Date \<Rightarrow> world \<Rightarrow> (reason + ref list) \<times> world" where
  "ToDoItems_reassignItem self item newId cutOffDate w =
     (let this = colls w self;
          w1 = w\<lparr>trace := trace w @
                 [ReassignItemCall (ToDoItems.jwt this) (userId this) (id' (todos w item))
                    newId cutOffDate]\<rparr>
      in (case reassignItem (interfaceHandle this) (todos w)
                 (ToDoItems.jwt this) (userId this) (id' (todos w item)) newId cutOffDate of
            Inl e \<Rightarrow> (Inl e, w1)
          | Inr response \<Rightarrow> (handleResponse response, w1)))"

text \<open>
  \<open>processItems\<close>: the loop over \<open>items\<close>. Each round writes the collection's
  dispatcher into the item and pushes the item onto one of the two arrays.
\<close>

fun processItems :: "cref \<Rightarrow> ref list \<Rightarrow> world \<Rightarrow> world" where
  "processItems self [] w = w"
| "processItems self (item # items) w =
     (let w1 = w\<lparr>todos := (todos w)(item := (todos w item)\<lparr>handleTrigger := Some self\<rparr>)\<rparr>;
          this = colls w1 self;
          w2 = (if finished (todos w1 item)
                then w1\<lparr>colls := (colls w1)(self := this\<lparr>doneItems := doneItems this @ [item]\<rparr>)\<rparr>
                else w1\<lparr>colls := (colls w1)(self := this\<lparr>pendingItems := pendingItems this @ [item]\<rparr>)\<rparr>)
      in processItems self items w2)"

text \<open>\<open>callbackHandle\<close>: the cases in the order of the \<open>switch\<close>.\<close>

fun callbackHandle :: "cref \<Rightarrow> ref \<Rightarrow> Operation \<Rightarrow> world \<Rightarrow> (reason + unit) \<times> world" where
  "callbackHandle self item (Complete cutOffDate) w =
     (case ToDoItems_completeItem self item cutOffDate w of
        (Inl e, w1) \<Rightarrow> (Inl e, w1)
      | (Inr items, w1) \<Rightarrow> (Inr (), processItems self items w1))"
| "callbackHandle self item (Delete cutOffDate) w =
     (case ToDoItems_deleteItem self item cutOffDate w of
        (Inl e, w1) \<Rightarrow> (Inl e, w1)
      | (Inr items, w1) \<Rightarrow> (Inr (), processItems self items w1))"
| "callbackHandle self item (Create cutOffDate) w =
     (case ToDoItems_createItem self item cutOffDate w of
        (Inl e, w1) \<Rightarrow> (Inl e, w1)
      | (Inr items, w1) \<Rightarrow> (Inr (), processItems self items w1))"
| "callbackHandle self item (Reassign newId cutOffDate) w =
     (case ToDoItems_reassignItem self item newId cutOffDate w of
        (Inl e, w1) \<Rightarrow> (Inl e, w1)
      | (Inr items, w1) \<Rightarrow> (Inr (), processItems self items w1))"

text \<open>
  \<open>populateItems\<close>. \<open>!items.errorMessage\<close> holds for \<open>null\<close> and for the empty
  string. \<open>items.toDos!\<close> is a compile-time assertion only: iterating \<open>null\<close> throws a
  \<open>TypeError\<close>.
\<close>

definition populateItems ::
  "cref \<Rightarrow> 'a ItemGetter_scheme \<Rightarrow> int \<Rightarrow> Date \<Rightarrow> world \<Rightarrow> (reason + EmptyResponse) \<times> world" where
  "populateItems self getter p_userId cutOffDate w =
     (let w1 = w\<lparr>trace := trace w @ [GetItemsCall (HasJWT.jwt getter) p_userId cutOffDate]\<rparr>
      in (case getItems getter (todos w) (HasJWT.jwt getter) p_userId cutOffDate of
            Inl e \<Rightarrow> (Inl e, w1)
          | Inr items \<Rightarrow>
              (if errorMessage items = None \<or> errorMessage items = Some []
               then (case toDos items of
                       None \<Rightarrow> (Inl TypeError, w1)
                     | Some l \<Rightarrow> (Inr \<lparr>code = 0, message = None\<rparr>, processItems self l w1))
               else (Inr \<lparr>code = 1, message = errorMessage items\<rparr>, w1))))"

subsection \<open>Todo\<close>

text \<open>\<open>performOperation\<close> awaits the trigger, so a rejection of the trigger is its own.\<close>

definition performOperation :: "ref \<Rightarrow> Operation \<Rightarrow> world \<Rightarrow> (reason + unit) \<times> world" where
  "performOperation item operation w =
     (case handleTrigger (todos w item) of
        Some trigger \<Rightarrow> callbackHandle trigger item operation w
      | None \<Rightarrow> (Inr (), w))"

subsection \<open>Notions used to state the properties\<close>

text \<open>The assignment \<open>item.handleTrigger = this.callbackHandle\<close> on the store.\<close>

definition bind :: "cref \<Rightarrow> ref \<Rightarrow> heap \<Rightarrow> heap" where
  "bind self item h = h(item := (h item)\<lparr>handleTrigger := Some self\<rparr>)"

text \<open>
  The capability call that section 4.2 of the specification assigns to an operation on
  a todo, and the reply of a remote collaborator to a call.
\<close>

fun capabilityCall :: "cref \<Rightarrow> ref \<Rightarrow> Operation \<Rightarrow> world \<Rightarrow> call" where
  "capabilityCall self item (Complete cutOffDate) w =
     CompleteItemCall (ToDoItems.jwt (colls w self)) (userId (colls w self))
       (id' (todos w item)) cutOffDate"
| "capabilityCall self item (Delete cutOffDate) w =
     DeleteItemCall (ToDoItems.jwt (colls w self)) (userId (colls w self))
       (id' (todos w item)) cutOffDate"
| "capabilityCall self item (Create cutOffDate) w =
     CreateItemCall (ToDoItems.jwt (colls w self)) (userId (colls w self)) item cutOffDate"
| "capabilityCall self item (Reassign newId cutOffDate) w =
     ReassignItemCall (ToDoItems.jwt (colls w self)) (userId (colls w self))
       (id' (todos w item)) newId cutOffDate"

fun reply :: "'a FullItemProcess_scheme \<Rightarrow> heap \<Rightarrow> call \<Rightarrow> reason + ToDoResponse" where
  "reply remote h (GetItemsCall j u d) = getItems remote h j u d"
| "reply remote h (CompleteItemCall j u i d) = completeItem remote h j u i d"
| "reply remote h (DeleteItemCall j u i d) = deleteItem remote h j u i d"
| "reply remote h (CreateItemCall j u item d) = createItem remote h j u item d"
| "reply remote h (ReassignItemCall j u i n d) = reassignItem remote h j u i n d"

text \<open>
  What a dispatch is to do once its capability call has settled, in world \<open>w1\<close>: a
  rejection is passed on, a response without a list becomes a rejection with the
  response's error message, and a list is handed to \<open>processItems\<close>.
\<close>

definition settle :: "cref \<Rightarrow> reason + ToDoResponse \<Rightarrow> world \<Rightarrow> (reason + unit) \<times> world" where
  "settle self outcome w1 =
     (case outcome of
        Inl e \<Rightarrow> (Inl e, w1)
      | Inr response \<Rightarrow>
          (case toDos response of
             Some items \<Rightarrow> (Inr (), processItems self items w1)
           | None \<Rightarrow>
               (Inl (Error (case errorMessage response of Some m \<Rightarrow> m | None \<Rightarrow> ''null'')), w1)))"

text \<open>Every todo in either list of a collection carries that collection's dispatcher.\<close>

definition triggersBound :: "cref \<Rightarrow> world \<Rightarrow> bool" where
  "triggersBound self w =
     list_all (\<lambda>r. handleTrigger (todos w r) = Some self)
       (pendingItems (colls w self) @ doneItems (colls w self))"

text \<open>The pending list holds unfinished todos only, the done list finished ones only.\<close>

definition partitioned :: "cref \<Rightarrow> world \<Rightarrow> bool" where
  "partitioned self w =
     (list_all (\<lambda>r. \<not> finished (todos w r)) (pendingItems (colls w self)) \<and>
      list_all (\<lambda>r. finished (todos w r)) (doneItems (colls w self)))"

text \<open>The ids of the todos a list of references holds: a todo's identity is its id.\<close>

definition idsOf :: "heap \<Rightarrow> ref list \<Rightarrow> int list" where
  "idsOf h items = map (\<lambda>r. id' (h r)) items"

subsection \<open>Sample objects\<close>

text \<open>
  Todo 1 as two snapshots, unfinished at address 1 and finished at address 2, and todo 2
  at every other address.
\<close>

definition T1 :: Todo where
  "T1 = Todo_new 1 ''write tests'' 10 20 (Some 0) None None None None 0"

definition T1_finished :: Todo where
  "T1_finished = Todo_new 1 ''write tests'' 10 20 (Some 0) None None (Some 5) (Some True) 0"

definition T2 :: Todo where
  "T2 = Todo_new 2 ''review code'' 10 20 None None None None None 3"

definition sampleHeap :: heap where
  "sampleHeap = (\<lambda>r. T2)(1 := T1, 2 := T1_finished)"

definition success :: "ref list \<Rightarrow> reason + ToDoResponse" where
  "success items = Inr \<lparr>errorMessage = None, toDos = Some items\<rparr>"

definition failure :: "string \<Rightarrow> reason + ToDoResponse" where
  "failure m = Inr \<lparr>errorMessage = Some m, toDos = None\<rparr>"

definition remoteOk :: FullItemProcess where
  "remoteOk =
     \<lparr> HasJWT.jwt = ''remote-token'',
       getItems = (\<lambda>h j u d. success [2]),
       completeItem = (\<lambda>h j u i d. success [2]),
       deleteItem = (\<lambda>h j u i d. success []),
       createItem = (\<lambda>h j u item d. success [1, 3]),
       reassignItem = (\<lambda>h j u i n d. success [3]) \<rparr>"

definition remoteNotFound :: FullItemProcess where
  "remoteNotFound =
     \<lparr> HasJWT.jwt = ''remote-token'',
       getItems = (\<lambda>h j u d. failure ''not found''),
       completeItem = (\<lambda>h j u i d. failure ''not found''),
       deleteItem = (\<lambda>h j u i d. failure ''not found''),
       createItem = (\<lambda>h j u item d. failure ''not found''),
       reassignItem = (\<lambda>h j u i n d. failure ''not found'') \<rparr>"

text \<open>A getter that answers every call with the full set of the user's todos, 1 and 2.\<close>

definition getterFull :: ItemGetter where
  "getterFull = \<lparr> HasJWT.jwt = ''remote-token'', getItems = (\<lambda>h j u d. success [1, 3]) \<rparr>"

text \<open>A getter that hands the same object \<open>T1\<close> to whoever asks.\<close>

definition getterT1 :: ItemGetter where
  "getterT1 = \<lparr> HasJWT.jwt = ''remote-token'', getItems = (\<lambda>h j u d. success [1]) \<rparr>"

definition getterBlank :: ItemGetter where
  "getterBlank = \<lparr> HasJWT.jwt = ''remote-token'', getItems = (\<lambda>h j u d. failure []) \<rparr>"

text \<open>
  A world whose collections are as their constructor leaves them, and the same world
  after collection 0 has processed \<open>[T1]\<close>.
\<close>

definition freshWorld :: "FullItemProcess \<Rightarrow> world" where
  "freshWorld remote =
     \<lparr> todos = sampleHeap, colls = (\<lambda>c. ToDoItems_new 7 ''token'' remote), trace = [] \<rparr>"

definition sampleWorld :: "FullItemProcess \<Rightarrow> world" where
  "sampleWorld remote = processItems 0 [1] (freshWorld remote)"

section \<open>Properties\<close>

subsection \<open>The loop of processItems\<close>

lemma processItems_Cons_done:
  "finished (todos w item) \<Longrightarrow>
   processItems self (item # items) w =
     processItems self items
       (w\<lparr>todos := bind self item (todos w),
          colls := (colls w)(self := (colls w self)
            \<lparr>doneItems := doneItems (colls w self) @ [item]\<rparr>)\<rparr>)"
  by (simp add: Let_def bind_def)

lemma processItems_Cons_pending:
  "\<not> finished (todos w item) \<Longrightarrow>
   processItems self (item # items) w =
     processItems self items
       (w\<lparr>todos := bind self item (todos w),
          colls := (colls w)(self := (colls w self)
            \<lparr>pendingItems := pendingItems (colls w self) @ [item]\<rparr>)\<rparr>)"
  by (simp add: Let_def bind_def)

lemmas processItems_Cons = processItems_Cons_done processItems_Cons_pending

lemma finished_bind: "finished (bind self item h r) = finished (h r)"
  by (simp add: bind_def)

lemma processItems_trace: "trace (processItems self items w) = trace w"
proof (induction items arbitrary: w)
  case Nil
  show ?case by simp
next
  case (Cons item items)
  show ?case
    by (cases "finished (todos w item)")
      (simp_all add: processItems_Cons Cons.IH del: processItems.simps)
qed

lemma processItems_todos:
  "todos (processItems self items w) r =
     (if r \<in> set items then (todos w r)\<lparr>handleTrigger := Some self\<rparr> else todos w r)"
proof (induction items arbitrary: w)
  case Nil
  show ?case by simp
next
  case (Cons item items)
  show ?case
    by (cases "finished (todos w item)")
      (simp_all add: processItems_Cons Cons.IH bind_def del: processItems.simps)
qed

lemma processItems_finished:
  "finished (todos (processItems self items w) r) = finished (todos w r)"
  by (simp add: processItems_todos)

lemma processItems_pendingItems:
  "pendingItems (colls (processItems self items w) self) =
     pendingItems (colls w self) @ filter (\<lambda>r. \<not> finished (todos w r)) items"
proof (induction items arbitrary: w)
  case Nil
  show ?case by simp
next
  case (Cons item items)
  show ?case
    by (cases "finished (todos w item)")
      (simp_all add: processItems_Cons Cons.IH finished_bind del: processItems.simps)
qed

lemma processItems_doneItems:
  "doneItems (colls (processItems self items w) self) =
     doneItems (colls w self) @ filter (\<lambda>r. finished (todos w r)) items"
proof (induction items arbitrary: w)
  case Nil
  show ?case by simp
next
  case (Cons item items)
  show ?case
    by (cases "finished (todos w item)")
      (simp_all add: processItems_Cons Cons.IH finished_bind del: processItems.simps)
qed

lemma processItems_userId:
  "userId (colls (processItems self items w) c) = userId (colls w c)"
proof (induction items arbitrary: w)
  case Nil
  show ?case by simp
next
  case (Cons item items)
  show ?case
    by (cases "finished (todos w item)")
      (simp_all add: processItems_Cons Cons.IH del: processItems.simps)
qed

lemma processItems_jwt:
  "ToDoItems.jwt (colls (processItems self items w) c) = ToDoItems.jwt (colls w c)"
proof (induction items arbitrary: w)
  case Nil
  show ?case by simp
next
  case (Cons item items)
  show ?case
    by (cases "finished (todos w item)")
      (simp_all add: processItems_Cons Cons.IH del: processItems.simps)
qed

lemma processItems_interfaceHandle:
  "interfaceHandle (colls (processItems self items w) c) = interfaceHandle (colls w c)"
proof (induction items arbitrary: w)
  case Nil
  show ?case by simp
next
  case (Cons item items)
  show ?case
    by (cases "finished (todos w item)")
      (simp_all add: processItems_Cons Cons.IH del: processItems.simps)
qed

lemma processItems_other:
  "c \<noteq> self \<Longrightarrow> colls (processItems self items w) c = colls w c"
proof (induction items arbitrary: w)
  case Nil
  show ?case by simp
next
  case (Cons item items)
  then show ?case
    by (cases "finished (todos w item)")
      (simp_all add: processItems_Cons del: processItems.simps)
qed

subsection \<open>The operations, unfolded\<close>

text \<open>
  A dispatch makes the capability call of its operation, hands the reply to
  \<open>handleResponse\<close> and the list, if there is one, to \<open>processItems\<close>.
\<close>

lemma callbackHandle_eq:
  "callbackHandle self item operation w =
     (case reply (interfaceHandle (colls w self)) (todos w)
             (capabilityCall self item operation w) of
        Inl e \<Rightarrow> (Inl e, w\<lparr>trace := trace w @ [capabilityCall self item operation w]\<rparr>)
      | Inr response \<Rightarrow>
          (case handleResponse response of
             Inl e \<Rightarrow> (Inl e, w\<lparr>trace := trace w @ [capabilityCall self item operation w]\<rparr>)
           | Inr items \<Rightarrow>
               (Inr (), processItems self items
                  (w\<lparr>trace := trace w @ [capabilityCall self item operation w]\<rparr>))))"
  by (cases operation)
    (simp_all add: ToDoItems_completeItem_def ToDoItems_deleteItem_def ToDoItems_createItem_def
      ToDoItems_reassignItem_def Let_def split: sum.splits)

lemma populateItems_success:
  assumes "getItems getter (todos w) (HasJWT.jwt getter) u d = Inr response"
    and "errorMessage response = None" and "toDos response = Some items"
  shows "populateItems self getter u d w =
           (Inr \<lparr>code = 0, message = None\<rparr>,
            processItems self items
              (w\<lparr>trace := trace w @ [GetItemsCall (HasJWT.jwt getter) u d]\<rparr>))"
  using assms by (simp add: populateItems_def del: processItems.simps)

lemma populateItems_failure:
  assumes "getItems getter (todos w) (HasJWT.jwt getter) u d = Inr response"
    and "errorMessage response = Some m" and "m \<noteq> []"
  shows "populateItems self getter u d w =
           (Inr \<lparr>code = 1, message = Some m\<rparr>,
            w\<lparr>trace := trace w @ [GetItemsCall (HasJWT.jwt getter) u d]\<rparr>)"
  using assms by (simp add: populateItems_def)

lemma sampleWorld_simps:
  "todos (sampleWorld remote) = sampleHeap(1 := T1\<lparr>handleTrigger := Some 0\<rparr>)"
  "colls (sampleWorld remote) = (\<lambda>c. ToDoItems_new 7 ''token'' remote)(0 := (ToDoItems_new 7 ''token'' remote)\<lparr>pendingItems := [1]\<rparr>)"
  "trace (sampleWorld remote) = []"
  by (simp_all add: sampleWorld_def freshWorld_def sampleHeap_def T1_def T1_finished_def Todo_new_def ToDoItems_new_def Let_def)

subsection \<open>Appending\<close>

text \<open>Two runs of \<open>populateItems\<close> with a getter that always answers with the list \<open>L\<close>.\<close>

lemma populateItems_twice:
  assumes "\<forall>h. getItems getter h (HasJWT.jwt getter) u d =
             Inr \<lparr>errorMessage = None, toDos = Some L\<rparr>"
  shows "fst (populateItems self getter u d (snd (populateItems self getter u d w))) =
           Inr \<lparr>code = 0, message = None\<rparr>"
    and "pendingItems (colls (snd (populateItems self getter u d
             (snd (populateItems self getter u d w)))) self) =
           pendingItems (colls w self) @ filter (\<lambda>r. \<not> finished (todos w r)) L
             @ filter (\<lambda>r. \<not> finished (todos w r)) L"
    and "doneItems (colls (snd (populateItems self getter u d
             (snd (populateItems self getter u d w)))) self) =
           doneItems (colls w self) @ filter (\<lambda>r. finished (todos w r)) L
             @ filter (\<lambda>r. finished (todos w r)) L"
proof -
  have run: "populateItems self getter u d v =
      (Inr \<lparr>code = 0, message = None\<rparr>,
       processItems self L (v\<lparr>trace := trace v @ [GetItemsCall (HasJWT.jwt getter) u d]\<rparr>))" for v
    by (rule populateItems_success [where response = "\<lparr>errorMessage = None, toDos = Some L\<rparr>"])
      (simp_all add: assms)
  show "fst (populateItems self getter u d (snd (populateItems self getter u d w))) =
           Inr \<lparr>code = 0, message = None\<rparr>"
    by (simp only: run fst_conv)
  show "pendingItems (colls (snd (populateItems self getter u d
             (snd (populateItems self getter u d w)))) self) =
           pendingItems (colls w self) @ filter (\<lambda>r. \<not> finished (todos w r)) L
             @ filter (\<lambda>r. \<not> finished (todos w r)) L"
    by (simp add: run processItems_pendingItems processItems_finished del: processItems.simps)
  show "doneItems (colls (snd (populateItems self getter u d
             (snd (populateItems self getter u d w)))) self) =
           doneItems (colls w self) @ filter (\<lambda>r. finished (todos w r)) L
             @ filter (\<lambda>r. finished (todos w r)) L"
    by (simp add: run processItems_doneItems processItems_finished del: processItems.simps)
qed

text \<open>
  C1, as amended. \<open>processItems\<close> appends and never replaces: for every collection and
  every list \<open>L\<close>, the pending list afterwards is the old pending list followed by the
  unfinished elements of \<open>L\<close> in their order, and the done list is the old done list
  followed by the finished elements of \<open>L\<close> in their order. Repeated calls therefore
  accumulate duplicates, also when the remote collaborator returns the full
  authoritative set each time: a second pass over the same \<open>L\<close>, and a second
  \<open>populateItems\<close> answered with the same \<open>L\<close>, add the elements of \<open>L\<close> once more.
\<close>

theorem processItems_appends:
  "pendingItems (colls (processItems self L w) self) =
     pendingItems (colls w self) @ filter (\<lambda>r. \<not> finished (todos w r)) L
   \<and> doneItems (colls (processItems self L w) self) =
     doneItems (colls w self) @ filter (\<lambda>r. finished (todos w r)) L
   \<and> pendingItems (colls (processItems self L (processItems self L w)) self) =
     pendingItems (colls w self) @ filter (\<lambda>r. \<not> finished (todos w r)) L
       @ filter (\<lambda>r. \<not> finished (todos w r)) L
   \<and> doneItems (colls (processItems self L (processItems self L w)) self) =
     doneItems (colls w self) @ filter (\<lambda>r. finished (todos w r)) L
       @ filter (\<lambda>r. finished (todos w r)) L
   \<and> ((\<forall>h. getItems getter h (HasJWT.jwt getter) u d =
            Inr \<lparr>errorMessage = None, toDos = Some L\<rparr>) \<longrightarrow>
        fst (populateItems self getter u d (snd (populateItems self getter u d w))) =
          Inr \<lparr>code = 0, message = None\<rparr>
        \<and> pendingItems (colls (snd (populateItems self getter u d
             (snd (populateItems self getter u d w)))) self) =
           pendingItems (colls w self) @ filter (\<lambda>r. \<not> finished (todos w r)) L
             @ filter (\<lambda>r. \<not> finished (todos w r)) L
        \<and> doneItems (colls (snd (populateItems self getter u d
             (snd (populateItems self getter u d w)))) self) =
           doneItems (colls w self) @ filter (\<lambda>r. finished (todos w r)) L
             @ filter (\<lambda>r. finished (todos w r)) L)"
proof -
  have a: "pendingItems (colls (processItems self L w) self) =
     pendingItems (colls w self) @ filter (\<lambda>r. \<not> finished (todos w r)) L
   \<and> doneItems (colls (processItems self L w) self) =
     doneItems (colls w self) @ filter (\<lambda>r. finished (todos w r)) L
   \<and> pendingItems (colls (processItems self L (processItems self L w)) self) =
     pendingItems (colls w self) @ filter (\<lambda>r. \<not> finished (todos w r)) L
       @ filter (\<lambda>r. \<not> finished (todos w r)) L
   \<and> doneItems (colls (processItems self L (processItems self L w)) self) =
     doneItems (colls w self) @ filter (\<lambda>r. finished (todos w r)) L
       @ filter (\<lambda>r. finished (todos w r)) L"
    by (simp add: processItems_pendingItems processItems_doneItems processItems_finished)
  show ?thesis
    using a populateItems_twice [of getter u d L self w] by blast
qed

text \<open>The fresh world and the sample store, field by field.\<close>

lemma freshWorld_fields:
  "pendingItems (colls (freshWorld remote) c) = []"
  "doneItems (colls (freshWorld remote) c) = []"
  "todos (freshWorld remote) = sampleHeap"
  "trace (freshWorld remote) = []"
  by (simp_all add: freshWorld_def ToDoItems_new_def)

lemma sampleHeap_at:
  "sampleHeap 1 = T1" "sampleHeap (Suc 0) = T1" "sampleHeap 2 = T1_finished" "sampleHeap 3 = T2"
  by (simp_all add: sampleHeap_def)

lemma sample_fields:
  "finished T1 = False" "finished T1_finished = True" "finished T2 = False"
  "id' T1 = 1" "id' T1_finished = 1" "id' T2 = 2"
  by (simp_all add: T1_def T1_finished_def T2_def Todo_new_def)

theorem processItems_appends_witness:
  "fst (populateItems 0 getterFull 7 0 (snd (populateItems 0 getterFull 7 0 (freshWorld remoteOk)))) =
     Inr \<lparr>code = 0, message = None\<rparr>
   \<and> pendingItems (colls (snd (populateItems 0 getterFull 7 0
        (snd (populateItems 0 getterFull 7 0 (freshWorld remoteOk))))) 0) = [1, 3, 1, 3]
   \<and> doneItems (colls (snd (populateItems 0 getterFull 7 0
        (snd (populateItems 0 getterFull 7 0 (freshWorld remoteOk))))) 0) = []"
proof -
  have a: "\<forall>h. getItems getterFull h (HasJWT.jwt getterFull) 7 0 =
      Inr \<lparr>errorMessage = None, toDos = Some [1, 3]\<rparr>"
    by (simp add: getterFull_def success_def)
  have b: "filter (\<lambda>r. \<not> finished (todos (freshWorld remoteOk) r)) [1, 3] = [1, 3]"
    "filter (\<lambda>r. finished (todos (freshWorld remoteOk) r)) [1, 3] = []"
    by (simp_all add: freshWorld_fields sampleHeap_at sample_fields)
  from processItems_appends [of 0 "[1, 3]" "freshWorld remoteOk" getterFull 7 0] a
  have t: "fst (populateItems 0 getterFull 7 0
          (snd (populateItems 0 getterFull 7 0 (freshWorld remoteOk)))) =
        Inr \<lparr>code = 0, message = None\<rparr>
      \<and> pendingItems (colls (snd (populateItems 0 getterFull 7 0
          (snd (populateItems 0 getterFull 7 0 (freshWorld remoteOk))))) 0) =
        pendingItems (colls (freshWorld remoteOk) 0)
          @ filter (\<lambda>r. \<not> finished (todos (freshWorld remoteOk) r)) [1, 3]
          @ filter (\<lambda>r. \<not> finished (todos (freshWorld remoteOk) r)) [1, 3]
      \<and> doneItems (colls (snd (populateItems 0 getterFull 7 0
          (snd (populateItems 0 getterFull 7 0 (freshWorld remoteOk))))) 0) =
        doneItems (colls (freshWorld remoteOk) 0)
          @ filter (\<lambda>r. finished (todos (freshWorld remoteOk) r)) [1, 3]
          @ filter (\<lambda>r. finished (todos (freshWorld remoteOk) r)) [1, 3]"
    by blast
  show ?thesis
    using t by (simp add: freshWorld_fields sampleHeap_at sample_fields del: One_nat_def)
qed

text \<open>
  C1 as first stated fails in its closing clause: a getter that answers every call with
  the full set of the user's todos, asked twice by a fresh collection, leaves every todo
  twice in the pending list.
\<close>

theorem processItems_appends_counterexample:
  "getItems getterFull (todos (freshWorld remoteOk)) (HasJWT.jwt getterFull) 7 0 =
     Inr \<lparr>errorMessage = None, toDos = Some [1, 3]\<rparr>
   \<and> getItems getterFull (todos (snd (populateItems 0 getterFull 7 0 (freshWorld remoteOk))))
       (HasJWT.jwt getterFull) 7 0 =
     Inr \<lparr>errorMessage = None, toDos = Some [1, 3]\<rparr>
   \<and> pendingItems (colls (freshWorld remoteOk) 0) = []
   \<and> pendingItems (colls (snd (populateItems 0 getterFull 7 0 (freshWorld remoteOk))) 0) = [1, 3]
   \<and> pendingItems (colls (snd (populateItems 0 getterFull 7 0
        (snd (populateItems 0 getterFull 7 0 (freshWorld remoteOk))))) 0) = [1, 3, 1, 3]
   \<and> \<not> distinct (pendingItems (colls (snd (populateItems 0 getterFull 7 0
        (snd (populateItems 0 getterFull 7 0 (freshWorld remoteOk))))) 0))"
proof -
  have run: "populateItems 0 getterFull 7 0 v =
      (Inr \<lparr>code = 0, message = None\<rparr>,
       processItems 0 [1, 3] (v\<lparr>trace := trace v @ [GetItemsCall (HasJWT.jwt getterFull) 7 0]\<rparr>))" for v
    by (rule populateItems_success [where response = "\<lparr>errorMessage = None, toDos = Some [1, 3]\<rparr>"])
      (simp_all add: getterFull_def success_def)
  have a: "getItems getterFull h (HasJWT.jwt getterFull) 7 0 =
     Inr \<lparr>errorMessage = None, toDos = Some [1, 3]\<rparr>" for h
    by (simp add: getterFull_def success_def)
  have b: "pendingItems (colls (snd (populateItems 0 getterFull 7 0 (freshWorld remoteOk))) 0) = [1, 3]"
    by (simp add: run processItems_pendingItems freshWorld_fields sampleHeap_at sample_fields
        del: processItems.simps)
  have c: "pendingItems (colls (snd (populateItems 0 getterFull 7 0
        (snd (populateItems 0 getterFull 7 0 (freshWorld remoteOk))))) 0) = [1, 3, 1, 3]"
    by (simp add: run processItems_pendingItems processItems_finished freshWorld_fields
        sampleHeap_at sample_fields del: processItems.simps)
  have d: "\<not> distinct [1, 3, 1, 3::nat]"
    by simp
  show ?thesis
    unfolding b c using a d by (simp add: freshWorld_fields)
qed

text \<open>
  C2, as amended. From a collection whose pending list is \<open>[T1]\<close> with \<open>T1\<close>
  unfinished and whose done list is empty, when \<open>getItems\<close> answers with the list
  \<open>[T1']\<close> and \<open>T1'\<close> is finished, \<open>populateItems\<close> returns the success response,
  the pending list is still \<open>[T1]\<close> and the done list is \<open>[T1']\<close>: the stale entry
  is kept.
\<close>

theorem populateItems_scenario:
  assumes "pendingItems (colls w self) = [t1]" and "\<not> finished (todos w t1)"
    and "doneItems (colls w self) = []"
    and "getItems getter (todos w) (HasJWT.jwt getter) u d =
           Inr \<lparr>errorMessage = None, toDos = Some [t1']\<rparr>"
    and "finished (todos w t1')"
  shows "fst (populateItems self getter u d w) = Inr \<lparr>code = 0, message = None\<rparr>
       \<and> pendingItems (colls (snd (populateItems self getter u d w)) self) = [t1]
       \<and> doneItems (colls (snd (populateItems self getter u d w)) self) = [t1']"
proof -
  let ?w1 = "w\<lparr>trace := trace w @ [GetItemsCall (HasJWT.jwt getter) u d]\<rparr>"
  have run: "populateItems self getter u d w =
      (Inr \<lparr>code = 0, message = None\<rparr>, processItems self [t1'] ?w1)"
    using assms(4) by (rule populateItems_success) simp_all
  show ?thesis
    unfolding run fst_conv snd_conv processItems_pendingItems processItems_doneItems
    using assms(1,2,3,5) by simp
qed

theorem populateItems_scenario_witness:
  "pendingItems (colls (sampleWorld remoteOk) 0) = [1]
   \<and> \<not> finished (todos (sampleWorld remoteOk) 1)
   \<and> finished (todos (sampleWorld remoteOk) 2)
   \<and> fst (populateItems 0 remoteOk 7 0 (sampleWorld remoteOk)) = Inr \<lparr>code = 0, message = None\<rparr>
   \<and> pendingItems (colls (snd (populateItems 0 remoteOk 7 0 (sampleWorld remoteOk))) 0) = [1]
   \<and> doneItems (colls (snd (populateItems 0 remoteOk 7 0 (sampleWorld remoteOk))) 0) = [2]"
proof -
  have a: "pendingItems (colls (sampleWorld remoteOk) 0) = [1]"
    by (simp add: sampleWorld_simps)
  have b: "\<not> finished (todos (sampleWorld remoteOk) 1)"
    by (simp add: sampleWorld_simps T1_def Todo_new_def)
  have c: "doneItems (colls (sampleWorld remoteOk) 0) = []"
    by (simp add: sampleWorld_simps ToDoItems_new_def)
  have d: "getItems remoteOk (todos (sampleWorld remoteOk)) (HasJWT.jwt remoteOk) 7 0 =
      Inr \<lparr>errorMessage = None, toDos = Some [2]\<rparr>"
    by (simp add: remoteOk_def success_def)
  have e: "finished (todos (sampleWorld remoteOk) 2)"
    by (simp add: sampleWorld_simps sampleHeap_def T1_finished_def Todo_new_def)
  show ?thesis
    using populateItems_scenario [OF a b c d e] a b e by simp
qed

text \<open>
  C2 as first stated fails: with todo 1 pending and unfinished, and a getter that answers
  with the finished snapshot of todo 1, the pending list is not empty afterwards.
\<close>

theorem populateItems_scenario_counterexample:
  "pendingItems (colls (sampleWorld remoteOk) 0) = [1]
   \<and> doneItems (colls (sampleWorld remoteOk) 0) = []
   \<and> \<not> finished (todos (sampleWorld remoteOk) 1)
   \<and> getItems remoteOk (todos (sampleWorld remoteOk)) (HasJWT.jwt remoteOk) 7 0 =
       Inr \<lparr>errorMessage = None, toDos = Some [2]\<rparr>
   \<and> finished (todos (sampleWorld remoteOk) 2)
   \<and> id' (todos (sampleWorld remoteOk) 2) = id' (todos (sampleWorld remoteOk) 1)
   \<and> pendingItems (colls (snd (populateItems 0 remoteOk 7 0 (sampleWorld remoteOk))) 0) \<noteq> []"
  by (simp add: populateItems_def sampleWorld_simps remoteOk_def success_def sampleHeap_def
      T1_def T1_finished_def Todo_new_def ToDoItems_new_def Let_def)

text \<open>
  C3. A failure response carries an error message and no payload, and \<open>populateItems\<close>
  is to answer it with code 1 and that message. For the empty message it does not:
  \<open>!items.errorMessage\<close> holds, the absent payload is iterated, and the promise rejects
  with a \<open>TypeError\<close>.
\<close>

theorem populateItems_blank_errorMessage:
  "getItems getterBlank (todos (sampleWorld remoteOk)) (HasJWT.jwt getterBlank) 7 0 =
      Inr \<lparr>errorMessage = Some [], toDos = None\<rparr>
   \<and> fst (populateItems 0 getterBlank 7 0 (sampleWorld remoteOk)) = Inl TypeError"
  by (simp add: populateItems_def getterBlank_def failure_def)

text \<open>
  C4. A dispatch makes exactly one capability call, chosen by the tag of the operation:
  Complete calls \<open>completeItem(jwt, userId, todo.id, cutOffDate)\<close>, Delete calls
  \<open>deleteItem(jwt, userId, todo.id, cutOffDate)\<close>, Create calls
  \<open>createItem(jwt, userId, todo, cutOffDate)\<close> and Reassign calls
  \<open>reassignItem(jwt, userId, todo.id, newId, cutOffDate)\<close>, with the collection's own
  \<open>jwt\<close> and \<open>userId\<close>. The trace grows by that one call, and a returned list is
  handed to \<open>processItems\<close>.
\<close>

theorem callbackHandle_dispatch:
  "callbackHandle self item (Complete d) w =
     settle self
       (completeItem (interfaceHandle (colls w self)) (todos w)
          (ToDoItems.jwt (colls w self)) (userId (colls w self)) (id' (todos w item)) d)
       (w\<lparr>trace := trace w @ [CompleteItemCall (ToDoItems.jwt (colls w self))
            (userId (colls w self)) (id' (todos w item)) d]\<rparr>)
   \<and> callbackHandle self item (Delete d) w =
     settle self
       (deleteItem (interfaceHandle (colls w self)) (todos w)
          (ToDoItems.jwt (colls w self)) (userId (colls w self)) (id' (todos w item)) d)
       (w\<lparr>trace := trace w @ [DeleteItemCall (ToDoItems.jwt (colls w self))
            (userId (colls w self)) (id' (todos w item)) d]\<rparr>)
   \<and> callbackHandle self item (Create d) w =
     settle self
       (createItem (interfaceHandle (colls w self)) (todos w)
          (ToDoItems.jwt (colls w self)) (userId (colls w self)) item d)
       (w\<lparr>trace := trace w @ [CreateItemCall (ToDoItems.jwt (colls w self))
            (userId (colls w self)) item d]\<rparr>)
   \<and> callbackHandle self item (Reassign newId d) w =
     settle self
       (reassignItem (interfaceHandle (colls w self)) (todos w)
          (ToDoItems.jwt (colls w self)) (userId (colls w self)) (id' (todos w item)) newId d)
       (w\<lparr>trace := trace w @ [ReassignItemCall (ToDoItems.jwt (colls w self))
            (userId (colls w self)) (id' (todos w item)) newId d]\<rparr>)
   \<and> trace (snd (callbackHandle self item (Complete d) w)) =
       trace w @ [CompleteItemCall (ToDoItems.jwt (colls w self)) (userId (colls w self))
                    (id' (todos w item)) d]
   \<and> trace (snd (callbackHandle self item (Delete d) w)) =
       trace w @ [DeleteItemCall (ToDoItems.jwt (colls w self)) (userId (colls w self))
                    (id' (todos w item)) d]
   \<and> trace (snd (callbackHandle self item (Create d) w)) =
       trace w @ [CreateItemCall (ToDoItems.jwt (colls w self)) (userId (colls w self)) item d]
   \<and> trace (snd (callbackHandle self item (Reassign newId d) w)) =
       trace w @ [ReassignItemCall (ToDoItems.jwt (colls w self)) (userId (colls w self))
                    (id' (todos w item)) newId d]"
  by (simp add: callbackHandle_eq settle_def handleResponse_def processItems_trace
      split: sum.splits option.splits del: callbackHandle.simps)

text \<open>The same for an arbitrary operation.\<close>

lemma callbackHandle_settle:
  "callbackHandle self item operation w =
     settle self
       (reply (interfaceHandle (colls w self)) (todos w) (capabilityCall self item operation w))
       (w\<lparr>trace := trace w @ [capabilityCall self item operation w]\<rparr>)"
  by (simp add: callbackHandle_eq settle_def handleResponse_def
      split: sum.splits option.splits del: callbackHandle.simps)

lemma callbackHandle_trace:
  "trace (snd (callbackHandle self item operation w)) =
     trace w @ [capabilityCall self item operation w]"
  by (simp add: callbackHandle_settle settle_def processItems_trace
      split: sum.splits option.splits del: callbackHandle.simps)

text \<open>
  C5, as amended. When the capability call of a dispatched operation answers with a
  response without a list, the dispatch rejects with the response's error message,
  \<open>processItems\<close> is not reached, both lists and the todo store are as before, and
  \<open>performOperation\<close> on a todo bound to the collection rejects in the same way: it
  awaits the trigger, so the rejection reaches its caller.
\<close>

theorem dispatch_failure:
  assumes "reply (interfaceHandle (colls w self)) (todos w)
             (capabilityCall self item operation w) = Inr response"
    and "toDos response = None"
  shows "callbackHandle self item operation w =
           (Inl (Error (case errorMessage response of Some m \<Rightarrow> m | None \<Rightarrow> ''null'')),
            w\<lparr>trace := trace w @ [capabilityCall self item operation w]\<rparr>)
       \<and> pendingItems (colls (snd (callbackHandle self item operation w)) self) =
           pendingItems (colls w self)
       \<and> doneItems (colls (snd (callbackHandle self item operation w)) self) =
           doneItems (colls w self)
       \<and> todos (snd (callbackHandle self item operation w)) = todos w
       \<and> (handleTrigger (todos w item) = Some self \<longrightarrow>
            performOperation item operation w = callbackHandle self item operation w)"
  using assms
  by (simp add: callbackHandle_settle settle_def performOperation_def del: callbackHandle.simps)

text \<open>The sample world, field by field.\<close>

lemma sampleWorld_interfaceHandle:
  "interfaceHandle (colls (sampleWorld remote) c) = remote"
  "userId (colls (sampleWorld remote) c) = 7"
  "ToDoItems.jwt (colls (sampleWorld remote) c) = ''token''"
  by (simp_all add: sampleWorld_simps ToDoItems_new_def)

lemma sampleWorld_todos:
  "todos (sampleWorld remote) 1 = T1\<lparr>handleTrigger := Some 0\<rparr>"
  "todos (sampleWorld remote) (Suc 0) = T1\<lparr>handleTrigger := Some 0\<rparr>"
  "todos (sampleWorld remote) 2 = T1_finished"
  "todos (sampleWorld remote) 3 = T2"
  by (simp_all add: sampleWorld_simps sampleHeap_def)

theorem dispatch_failure_witness:
  "fst (callbackHandle 0 1 (Complete 0) (sampleWorld remoteNotFound)) = Inl (Error ''not found'')
   \<and> pendingItems (colls (snd (callbackHandle 0 1 (Complete 0) (sampleWorld remoteNotFound))) 0) = [1]
   \<and> doneItems (colls (snd (callbackHandle 0 1 (Complete 0) (sampleWorld remoteNotFound))) 0) = []
   \<and> fst (performOperation 1 (Complete 0) (sampleWorld remoteNotFound)) = Inl (Error ''not found'')"
proof -
  have a: "reply (interfaceHandle (colls (sampleWorld remoteNotFound) 0))
      (todos (sampleWorld remoteNotFound))
      (capabilityCall 0 1 (Complete 0) (sampleWorld remoteNotFound)) =
      Inr \<lparr>errorMessage = Some ''not found'', toDos = None\<rparr>"
    by (simp add: sampleWorld_interfaceHandle remoteNotFound_def failure_def)
  have b: "toDos \<lparr>errorMessage = Some ''not found'', toDos = None\<rparr> = None"
    by simp
  have c: "handleTrigger (todos (sampleWorld remoteNotFound) 1) = Some 0"
    by (simp add: sampleWorld_todos)
  have d: "pendingItems (colls (sampleWorld remoteNotFound) 0) = [1]"
    "doneItems (colls (sampleWorld remoteNotFound) 0) = []"
    by (simp_all add: sampleWorld_simps ToDoItems_new_def)
  show ?thesis
    using dispatch_failure [OF a b] c d by (simp del: callbackHandle.simps)
qed

text \<open>
  C5 as first stated fails in its last part: with a remote collaborator that answers
  \<open>completeItem\<close> with the error message \<open>not found\<close>, \<open>performOperation\<close> on the
  bound todo 1 does not resolve, it rejects with that message.
\<close>

theorem dispatch_failure_counterexample:
  "completeItem (interfaceHandle (colls (sampleWorld remoteNotFound) 0))
       (todos (sampleWorld remoteNotFound)) ''token'' 7 1 0 =
     Inr \<lparr>errorMessage = Some ''not found'', toDos = None\<rparr>
   \<and> handleTrigger (todos (sampleWorld remoteNotFound) 1) = Some 0
   \<and> fst (performOperation 1 (Complete 0) (sampleWorld remoteNotFound)) = Inl (Error ''not found'')
   \<and> fst (performOperation 1 (Complete 0) (sampleWorld remoteNotFound)) \<noteq> Inr ()"
  by (simp add: performOperation_def callbackHandle_settle settle_def sampleWorld_interfaceHandle
      sampleWorld_todos remoteNotFound_def failure_def T1_def Todo_new_def
      del: callbackHandle.simps)

text \<open>
  C6. With no trigger bound, \<open>performOperation\<close> resolves and leaves the world as it is.
  With a trigger bound, it is one run of that trigger on the todo itself and the
  operation, which makes one capability call.
\<close>

theorem performOperation_trigger:
  "(handleTrigger (todos w item) = None \<longrightarrow> performOperation item operation w = (Inr (), w))
   \<and> (handleTrigger (todos w item) = Some self \<longrightarrow>
        performOperation item operation w = callbackHandle self item operation w
        \<and> trace (snd (performOperation item operation w)) =
            trace w @ [capabilityCall self item operation w])"
  by (simp add: performOperation_def callbackHandle_trace del: callbackHandle.simps)

theorem performOperation_trigger_witness:
  "performOperation 3 (Delete 0) (sampleWorld remoteOk) = (Inr (), sampleWorld remoteOk)
   \<and> performOperation 1 (Delete 0) (sampleWorld remoteOk) =
       callbackHandle 0 1 (Delete 0) (sampleWorld remoteOk)
   \<and> trace (snd (performOperation 1 (Delete 0) (sampleWorld remoteOk))) =
       [DeleteItemCall ''token'' 7 1 0]"
proof -
  have a: "handleTrigger (todos (sampleWorld remoteOk) 3) = None"
    by (simp add: sampleWorld_todos T2_def Todo_new_def)
  have b: "handleTrigger (todos (sampleWorld remoteOk) 1) = Some 0"
    by (simp add: sampleWorld_todos)
  have c: "capabilityCall 0 1 (Delete 0) (sampleWorld remoteOk) = DeleteItemCall ''token'' 7 1 0"
    by (simp add: sampleWorld_interfaceHandle sampleWorld_todos T1_def Todo_new_def)
  have d: "trace (sampleWorld remoteOk) = []"
    by (simp add: sampleWorld_simps)
  have e: "performOperation 3 (Delete 0) (sampleWorld remoteOk) = (Inr (), sampleWorld remoteOk)"
    using performOperation_trigger [of "sampleWorld remoteOk" 3 "Delete 0" 0] a by blast
  have f: "performOperation 1 (Delete 0) (sampleWorld remoteOk) =
        callbackHandle 0 1 (Delete 0) (sampleWorld remoteOk)
      \<and> trace (snd (performOperation 1 (Delete 0) (sampleWorld remoteOk))) =
        trace (sampleWorld remoteOk) @ [capabilityCall 0 1 (Delete 0) (sampleWorld remoteOk)]"
    using performOperation_trigger [of "sampleWorld remoteOk" 1 "Delete 0" 0] b by blast
  show ?thesis
    using e f [unfolded c d append_Nil] by blast
qed

subsection \<open>The trigger invariant\<close>

lemma triggersBound_trace [simp]:
  "triggersBound self (w\<lparr>trace := t\<rparr>) = triggersBound self w"
  by (simp add: triggersBound_def)

lemma triggersBound_processItems:
  assumes "triggersBound self w"
  shows "triggersBound self (processItems self items w)"
  using assms
  by (auto simp: triggersBound_def processItems_pendingItems processItems_doneItems
      processItems_todos list_all_iff)

lemma triggersBound_populateItems:
  "triggersBound self w \<Longrightarrow> triggersBound self (snd (populateItems self getter u d w))"
  by (simp add: populateItems_def Let_def triggersBound_processItems
      split: sum.splits option.splits del: processItems.simps)

lemma triggersBound_callbackHandle:
  "triggersBound self w \<Longrightarrow> triggersBound self (snd (callbackHandle self item operation w))"
  by (simp add: callbackHandle_settle settle_def triggersBound_processItems
      split: sum.splits option.splits del: processItems.simps callbackHandle.simps)

lemma processItems_rebound:
  assumes "list_all (\<lambda>r. handleTrigger (todos w r) = Some self) items"
  shows "todos (processItems self items w) = todos w"
proof (rule ext)
  fix r
  show "todos (processItems self items w) r = todos w r"
    using assms by (auto simp: processItems_todos list_all_iff)
qed

lemma processItems_twice_todos:
  "todos (processItems self items (processItems self items w)) =
     todos (processItems self items w)"
  by (rule processItems_rebound) (simp add: list_all_iff processItems_todos)

text \<open>
  C7, as amended. If every todo in the pending and done lists of a collection carries
  the collection's dispatcher before \<open>populateItems\<close> or a dispatched operation of
  that collection, then so does every todo in its lists afterwards, whatever the
  outcome. The premise holds for a collection as its constructor leaves it. After a pass
  of \<open>processItems\<close> every processed todo is bound; binding todos that are bound
  already changes nothing, and so does a second pass over the same list.
\<close>

theorem triggersBound_invariant:
  "triggersBound self (w\<lparr>colls := (colls w)(self := ToDoItems_new i j remote)\<rparr>)
   \<and> (triggersBound self w \<longrightarrow> triggersBound self (snd (populateItems self getter u d w)))
   \<and> (triggersBound self w \<longrightarrow> triggersBound self (snd (callbackHandle self item operation w)))
   \<and> list_all (\<lambda>r. handleTrigger (todos (processItems self items w) r) = Some self) items
   \<and> (list_all (\<lambda>r. handleTrigger (todos w r) = Some self) items \<longrightarrow>
        todos (processItems self items w) = todos w)
   \<and> todos (processItems self items (processItems self items w)) =
        todos (processItems self items w)"
proof -
  have a: "triggersBound self (w\<lparr>colls := (colls w)(self := ToDoItems_new i j remote)\<rparr>)"
    by (simp add: triggersBound_def ToDoItems_new_def)
  have b: "list_all (\<lambda>r. handleTrigger (todos (processItems self items w) r) = Some self) items"
    by (simp add: list_all_iff processItems_todos)
  show ?thesis
    using a b triggersBound_populateItems triggersBound_callbackHandle processItems_rebound
      processItems_twice_todos
    by blast
qed

subsection \<open>The partition\<close>

lemma partitioned_processItems:
  assumes "partitioned self w"
  shows "partitioned self (processItems self items w)"
  using assms
  by (auto simp: partitioned_def processItems_pendingItems processItems_doneItems
      processItems_finished list_all_iff)

lemma partitioned_disjoint:
  assumes "partitioned self w"
  shows "set (pendingItems (colls w self)) \<inter> set (doneItems (colls w self)) = {}"
  using assms by (auto simp: partitioned_def list_all_iff)

text \<open>
  C8, as amended. After a pass of \<open>processItems\<close> every todo object of the processed
  list has been pushed onto exactly one list, the done list if it is finished and the
  pending list otherwise, and it is in the other list only if it was there before the
  pass. If before the pass the pending list held unfinished objects only and the done
  list finished ones only, the same holds afterwards and no object is in both lists.
  Entries of earlier passes are kept, so the claim is about objects, not about ids.
\<close>

theorem processItems_partition:
  "(\<forall>r \<in> set L.
      if finished (todos w r)
      then r \<in> set (doneItems (colls (processItems self L w) self))
         \<and> (r \<in> set (pendingItems (colls (processItems self L w) self))
              \<longleftrightarrow> r \<in> set (pendingItems (colls w self)))
      else r \<in> set (pendingItems (colls (processItems self L w) self))
         \<and> (r \<in> set (doneItems (colls (processItems self L w) self))
              \<longleftrightarrow> r \<in> set (doneItems (colls w self))))
   \<and> (partitioned self w \<longrightarrow>
        partitioned self (processItems self L w)
        \<and> set (pendingItems (colls (processItems self L w) self))
            \<inter> set (doneItems (colls (processItems self L w) self)) = {})"
proof -
  have a: "\<forall>r \<in> set L.
      if finished (todos w r)
      then r \<in> set (doneItems (colls (processItems self L w) self))
         \<and> (r \<in> set (pendingItems (colls (processItems self L w) self))
              \<longleftrightarrow> r \<in> set (pendingItems (colls w self)))
      else r \<in> set (pendingItems (colls (processItems self L w) self))
         \<and> (r \<in> set (doneItems (colls (processItems self L w) self))
              \<longleftrightarrow> r \<in> set (doneItems (colls w self)))"
    by (simp add: processItems_pendingItems processItems_doneItems)
  show ?thesis
    using a partitioned_processItems partitioned_disjoint by blast
qed

text \<open>More of the sample world.\<close>

lemma sampleWorld_lists:
  "pendingItems (colls (sampleWorld remote) 0) = [1]"
  "doneItems (colls (sampleWorld remote) 0) = []"
  by (simp_all add: sampleWorld_simps ToDoItems_new_def)

lemma sample_flags:
  "finished T1 = False" "finished T1_finished = True" "finished T2 = False"
  "id' T1 = 1" "id' T1_finished = 1" "id' T2 = 2"
  "handleTrigger T1 = None" "handleTrigger T1_finished = None" "handleTrigger T2 = None"
  by (simp_all add: T1_def T1_finished_def T2_def Todo_new_def)

theorem triggersBound_invariant_witness:
  "triggersBound 0 (sampleWorld remoteOk)
   \<and> triggersBound 0 (snd (populateItems 0 remoteOk 7 0 (sampleWorld remoteOk)))
   \<and> triggersBound 0 (snd (callbackHandle 0 1 (Create 0) (sampleWorld remoteOk)))
   \<and> todos (processItems 0 [1] (sampleWorld remoteOk)) = todos (sampleWorld remoteOk)"
proof -
  have a: "triggersBound 0 (sampleWorld remoteOk)"
    by (simp add: triggersBound_def sampleWorld_lists sampleWorld_todos)
  have b: "list_all (\<lambda>r. handleTrigger (todos (sampleWorld remoteOk) r) = Some 0) [1]"
    by (simp add: sampleWorld_todos)
  show ?thesis
    using triggersBound_invariant
      [of 0 "sampleWorld remoteOk" 7 "''token''" remoteOk remoteOk 7 0 1 "Create 0" "[1]"] a b
    by blast
qed

text \<open>
  C7 as first stated fails: collections 0 and 1 are both populated with the same object
  \<open>T1\<close>, then a Delete dispatched by collection 0 succeeds. Afterwards \<open>T1\<close> is in
  the pending list of collection 0 and carries the dispatcher of collection 1.
\<close>

theorem triggersBound_counterexample:
  "fst (populateItems 0 getterT1 7 0 (freshWorld remoteOk)) = Inr \<lparr>code = 0, message = None\<rparr>
   \<and> fst (populateItems 1 getterT1 7 0 (snd (populateItems 0 getterT1 7 0 (freshWorld remoteOk)))) =
       Inr \<lparr>code = 0, message = None\<rparr>
   \<and> fst (callbackHandle 0 1 (Delete 0)
        (snd (populateItems 1 getterT1 7 0 (snd (populateItems 0 getterT1 7 0 (freshWorld remoteOk)))))) =
       Inr ()
   \<and> pendingItems (colls (snd (callbackHandle 0 1 (Delete 0)
        (snd (populateItems 1 getterT1 7 0 (snd (populateItems 0 getterT1 7 0 (freshWorld remoteOk))))))) 0) =
       [1]
   \<and> handleTrigger (todos (snd (callbackHandle 0 1 (Delete 0)
        (snd (populateItems 1 getterT1 7 0 (snd (populateItems 0 getterT1 7 0 (freshWorld remoteOk))))))) 1) =
       Some 1
   \<and> \<not> triggersBound 0 (snd (callbackHandle 0 1 (Delete 0)
        (snd (populateItems 1 getterT1 7 0 (snd (populateItems 0 getterT1 7 0 (freshWorld remoteOk)))))))"
proof -
  have run: "populateItems c getterT1 7 0 v =
      (Inr \<lparr>code = 0, message = None\<rparr>,
       processItems c [1] (v\<lparr>trace := trace v @ [GetItemsCall (HasJWT.jwt getterT1) 7 0]\<rparr>))" for c v
    by (rule populateItems_success [where response = "\<lparr>errorMessage = None, toDos = Some [1]\<rparr>"])
      (simp_all add: getterT1_def success_def)
  let ?wA = "snd (populateItems 0 getterT1 7 0 (freshWorld remoteOk))"
  let ?wAB = "snd (populateItems 1 getterT1 7 0 ?wA)"
  have iface: "interfaceHandle (colls ?wAB 0) = remoteOk"
    by (simp add: run processItems_interfaceHandle freshWorld_def ToDoItems_new_def
        del: One_nat_def processItems.simps)
  have del: "callbackHandle 0 1 (Delete 0) ?wAB =
      (Inr (), ?wAB\<lparr>trace := trace ?wAB @ [capabilityCall 0 1 (Delete 0) ?wAB]\<rparr>)"
  proof -
    have "reply (interfaceHandle (colls ?wAB 0)) (todos ?wAB)
        (capabilityCall 0 1 (Delete 0) ?wAB) = success []"
      unfolding capabilityCall.simps reply.simps iface by (simp add: remoteOk_def)
    then show ?thesis
      unfolding callbackHandle_settle by (simp add: settle_def success_def)
  qed
  have pend: "pendingItems (colls ?wAB 0) = [1]"
    by (simp add: run processItems_pendingItems processItems_other freshWorld_fields
        sampleHeap_at sample_fields del: processItems.simps)
  have trig: "handleTrigger (todos ?wAB 1) = Some 1"
    by (simp add: run processItems_todos del: One_nat_def processItems.simps)
  have nb: "\<not> triggersBound 0 ?wAB"
    by (simp add: triggersBound_def pend trig del: One_nat_def)
  have p1: "fst (populateItems 0 getterT1 7 0 (freshWorld remoteOk)) =
      Inr \<lparr>code = 0, message = None\<rparr>"
    by (simp only: run fst_conv)
  have p2: "fst (populateItems 1 getterT1 7 0 ?wA) = Inr \<lparr>code = 0, message = None\<rparr>"
    by (simp only: run fst_conv)
  have d1: "fst (callbackHandle 0 1 (Delete 0) ?wAB) = Inr ()"
    by (simp only: del fst_conv)
  have d2: "pendingItems (colls (snd (callbackHandle 0 1 (Delete 0) ?wAB)) 0) = [1]"
    unfolding del snd_conv using pend by (simp del: One_nat_def processItems.simps)
  have d3: "handleTrigger (todos (snd (callbackHandle 0 1 (Delete 0) ?wAB)) 1) = Some 1"
    unfolding del snd_conv using trig by (simp del: One_nat_def processItems.simps)
  have d4: "\<not> triggersBound 0 (snd (callbackHandle 0 1 (Delete 0) ?wAB))"
    unfolding del snd_conv using nb by (simp del: One_nat_def processItems.simps)
  show ?thesis
    using p1 p2 d1 d2 d3 d4 by blast
qed

theorem processItems_partition_witness:
  "partitioned 0 (sampleWorld remoteOk)
   \<and> 2 \<in> set (doneItems (colls (processItems 0 [2, 3] (sampleWorld remoteOk)) 0))
   \<and> 2 \<notin> set (pendingItems (colls (processItems 0 [2, 3] (sampleWorld remoteOk)) 0))
   \<and> 3 \<in> set (pendingItems (colls (processItems 0 [2, 3] (sampleWorld remoteOk)) 0))
   \<and> 3 \<notin> set (doneItems (colls (processItems 0 [2, 3] (sampleWorld remoteOk)) 0))
   \<and> set (pendingItems (colls (processItems 0 [2, 3] (sampleWorld remoteOk)) 0))
       \<inter> set (doneItems (colls (processItems 0 [2, 3] (sampleWorld remoteOk)) 0)) = {}"
proof -
  have a: "partitioned 0 (sampleWorld remoteOk)"
    by (simp add: partitioned_def sampleWorld_lists sampleWorld_todos sample_flags)
  have b: "(2::nat) \<in> set [2, 3]" "(3::nat) \<in> set [2, 3]"
    by simp_all
  have c: "finished (todos (sampleWorld remoteOk) 2)" "\<not> finished (todos (sampleWorld remoteOk) 3)"
    by (simp_all add: sampleWorld_todos sample_flags)
  have d: "2 \<notin> set (pendingItems (colls (sampleWorld remoteOk) 0))"
    "3 \<notin> set (doneItems (colls (sampleWorld remoteOk) 0))"
    by (simp_all add: sampleWorld_lists)
  note t = processItems_partition [of "[2, 3]" "sampleWorld remoteOk" 0]
  from t have e: "\<forall>r \<in> set [2, 3].
      if finished (todos (sampleWorld remoteOk) r)
      then r \<in> set (doneItems (colls (processItems 0 [2, 3] (sampleWorld remoteOk)) 0))
         \<and> (r \<in> set (pendingItems (colls (processItems 0 [2, 3] (sampleWorld remoteOk)) 0))
              \<longleftrightarrow> r \<in> set (pendingItems (colls (sampleWorld remoteOk) 0)))
      else r \<in> set (pendingItems (colls (processItems 0 [2, 3] (sampleWorld remoteOk)) 0))
         \<and> (r \<in> set (doneItems (colls (processItems 0 [2, 3] (sampleWorld remoteOk)) 0))
              \<longleftrightarrow> r \<in> set (doneItems (colls (sampleWorld remoteOk) 0)))"
    by (rule conjunct1)
  from t a have f: "set (pendingItems (colls (processItems 0 [2, 3] (sampleWorld remoteOk)) 0))
       \<inter> set (doneItems (colls (processItems 0 [2, 3] (sampleWorld remoteOk)) 0)) = {}"
    by blast
  from bspec [OF e b(1)] c(1) d(1)
  have g: "2 \<in> set (doneItems (colls (processItems 0 [2, 3] (sampleWorld remoteOk)) 0))"
    "2 \<notin> set (pendingItems (colls (processItems 0 [2, 3] (sampleWorld remoteOk)) 0))"
    by (simp_all del: processItems.simps)
  from bspec [OF e b(2)] c(2) d(2)
  have h: "3 \<in> set (pendingItems (colls (processItems 0 [2, 3] (sampleWorld remoteOk)) 0))"
    "3 \<notin> set (doneItems (colls (processItems 0 [2, 3] (sampleWorld remoteOk)) 0))"
    by (simp_all del: processItems.simps)
  show ?thesis
    using a f g h by blast
qed

text \<open>
  C8 as first stated fails: a collection fresh from its constructor processes \<open>[T1]\<close>,
  todo 1 unfinished, and then the finished snapshot of todo 1. Afterwards todo 1 is in
  the pending list and in the done list.
\<close>

theorem processItems_partition_counterexample:
  "sampleWorld remoteOk = processItems 0 [1] (freshWorld remoteOk)
   \<and> pendingItems (colls (freshWorld remoteOk) 0) = []
   \<and> doneItems (colls (freshWorld remoteOk) 0) = []
   \<and> pendingItems (colls (processItems 0 [2] (sampleWorld remoteOk)) 0) = [1]
   \<and> doneItems (colls (processItems 0 [2] (sampleWorld remoteOk)) 0) = [2]
   \<and> idsOf (todos (processItems 0 [2] (sampleWorld remoteOk)))
        (pendingItems (colls (processItems 0 [2] (sampleWorld remoteOk)) 0)) = [1]
   \<and> idsOf (todos (processItems 0 [2] (sampleWorld remoteOk)))
        (doneItems (colls (processItems 0 [2] (sampleWorld remoteOk)) 0)) = [1]"
proof -
  have a: "sampleWorld remoteOk = processItems 0 [1] (freshWorld remoteOk)"
    by (simp only: sampleWorld_def)
  have b: "pendingItems (colls (freshWorld remoteOk) 0) = []"
    "doneItems (colls (freshWorld remoteOk) 0) = []"
    by (simp_all add: freshWorld_def ToDoItems_new_def)
  have c: "pendingItems (colls (processItems 0 [2] (sampleWorld remoteOk)) 0) = [1]"
    "doneItems (colls (processItems 0 [2] (sampleWorld remoteOk)) 0) = [2]"
    by (simp_all add: processItems_pendingItems processItems_doneItems
        sampleWorld_lists sampleWorld_todos sample_flags del: processItems.simps)
  have d: "idsOf (todos (processItems 0 [2] (sampleWorld remoteOk))) [1] = [1]"
    "idsOf (todos (processItems 0 [2] (sampleWorld remoteOk))) [2] = [1]"
    by (simp_all add: idsOf_def processItems_todos sampleWorld_todos sample_flags
        del: processItems.simps)
  show ?thesis
    unfolding c d using a b by blast
qed

text \<open>
  C9. \<open>populateItems\<close> calls \<open>getItems\<close> with the getter's \<open>jwt\<close> and with its own
  \<open>userId\<close> argument. The collection's \<open>jwt\<close> and \<open>userId\<close> play no part: two
  collections that differ in these two fields only make the same call, return the same
  value and end with the same lists and the same todo store.
\<close>

theorem populateItems_ignores_own_credentials:
  "fst (populateItems self getter u d
          (w\<lparr>colls := (colls w)(self := (colls w self)\<lparr>userId := u', ToDoItems.jwt := j'\<rparr>)\<rparr>)) =
     fst (populateItems self getter u d w)
   \<and> trace (snd (populateItems self getter u d
          (w\<lparr>colls := (colls w)(self := (colls w self)\<lparr>userId := u', ToDoItems.jwt := j'\<rparr>)\<rparr>))) =
     trace w @ [GetItemsCall (HasJWT.jwt getter) u d]
   \<and> trace (snd (populateItems self getter u d w)) =
     trace w @ [GetItemsCall (HasJWT.jwt getter) u d]
   \<and> todos (snd (populateItems self getter u d
          (w\<lparr>colls := (colls w)(self := (colls w self)\<lparr>userId := u', ToDoItems.jwt := j'\<rparr>)\<rparr>))) =
     todos (snd (populateItems self getter u d w))
   \<and> pendingItems (colls (snd (populateItems self getter u d
          (w\<lparr>colls := (colls w)(self := (colls w self)\<lparr>userId := u', ToDoItems.jwt := j'\<rparr>)\<rparr>))) self) =
     pendingItems (colls (snd (populateItems self getter u d w)) self)
   \<and> doneItems (colls (snd (populateItems self getter u d
          (w\<lparr>colls := (colls w)(self := (colls w self)\<lparr>userId := u', ToDoItems.jwt := j'\<rparr>)\<rparr>))) self) =
     doneItems (colls (snd (populateItems self getter u d w)) self)"
  by (auto simp: populateItems_def Let_def processItems_trace processItems_pendingItems
      processItems_doneItems processItems_todos fun_eq_iff
      split: sum.splits option.splits simp del: processItems.simps)

text \<open>
  C10. A response whose list is present and empty is a success: \<open>handleResponse\<close>
  returns the empty list, \<open>processItems\<close> on it changes nothing, and so a dispatch or
  a \<open>populateItems\<close> that receives it resolves and leaves both lists as they were.
\<close>

theorem empty_list_is_success:
  "handleResponse \<lparr>errorMessage = e, toDos = Some []\<rparr> = Inr []
   \<and> processItems self [] w = w
   \<and> (reply (interfaceHandle (colls w self)) (todos w) (capabilityCall self item operation w) =
        Inr \<lparr>errorMessage = e, toDos = Some []\<rparr> \<longrightarrow>
      callbackHandle self item operation w =
        (Inr (), w\<lparr>trace := trace w @ [capabilityCall self item operation w]\<rparr>))
   \<and> (getItems getter (todos w) (HasJWT.jwt getter) u d = Inr \<lparr>errorMessage = None, toDos = Some []\<rparr> \<longrightarrow>
      populateItems self getter u d w =
        (Inr \<lparr>code = 0, message = None\<rparr>, w\<lparr>trace := trace w @ [GetItemsCall (HasJWT.jwt getter) u d]\<rparr>))"
  by (simp add: handleResponse_def callbackHandle_settle settle_def populateItems_def
      del: callbackHandle.simps)

theorem empty_list_is_success_witness:
  "callbackHandle 0 1 (Delete 0) (sampleWorld remoteOk) =
     (Inr (), (sampleWorld remoteOk)\<lparr>trace := [DeleteItemCall ''token'' 7 1 0]\<rparr>)
   \<and> pendingItems (colls (snd (callbackHandle 0 1 (Delete 0) (sampleWorld remoteOk))) 0) = [1]
   \<and> doneItems (colls (snd (callbackHandle 0 1 (Delete 0) (sampleWorld remoteOk))) 0) = []"
proof -
  have c: "capabilityCall 0 1 (Delete 0) (sampleWorld remoteOk) = DeleteItemCall ''token'' 7 1 0"
    by (simp add: sampleWorld_interfaceHandle sampleWorld_todos sample_flags)
  have a: "reply (interfaceHandle (colls (sampleWorld remoteOk) 0)) (todos (sampleWorld remoteOk))
      (capabilityCall 0 1 (Delete 0) (sampleWorld remoteOk)) =
      Inr \<lparr>errorMessage = None, toDos = Some []\<rparr>"
    unfolding c by (simp add: sampleWorld_interfaceHandle remoteOk_def success_def)
  have d: "trace (sampleWorld remoteOk) = []"
    by (simp add: sampleWorld_simps)
  have e: "callbackHandle 0 1 (Delete 0) (sampleWorld remoteOk) =
     (Inr (), (sampleWorld remoteOk)\<lparr>trace := [DeleteItemCall ''token'' 7 1 0]\<rparr>)"
    using empty_list_is_success [of None 0 "sampleWorld remoteOk" 1 "Delete 0" remoteOk 7 0] a
    unfolding c d append_Nil by blast
  show ?thesis
    unfolding e by (simp add: sampleWorld_lists)
qed

end
